theory Spec2Isabelle
  imports Main "HOL-Library.Char_ord" "HOL-Library.List_Lexorder"
begin

section \<open>JavaScript values used by app.jsx\<close>

text \<open>
  Strings are character lists, ordered character by character (the order of
  \<open>Array.prototype.sort\<close> without a comparator, which compares code units). A value of
  JavaScript type \<open>string | null\<close> (an architect
  name, the pending pivot tag, an error message) is a \<open>string option\<close>, with \<open>None\<close> for
  \<open>null\<close> and \<open>undefined\<close>. JavaScript tests such a value by truthiness: \<open>if (v)\<close>,
  \<open>!v\<close>, \<open>v || null\<close> and \<open>filter(Boolean)\<close> treat \<open>null\<close>, \<open>undefined\<close> and the
  empty string alike as false.
\<close>

definition truthy :: "string option \<Rightarrow> bool" where
  "truthy v = (case v of None \<Rightarrow> False | Some s \<Rightarrow> s \<noteq> [])"

text \<open>\<open>v || null\<close>\<close>

definition or_null :: "string option \<Rightarrow> string option" where
  "or_null v = (if truthy v then v else None)"

text \<open>
  A JavaScript \<open>Set\<close> of strings iterates in insertion order and holds no element twice:
  it is a list without repetition. \<open>Array.from(s)\<close> and \<open>new Set(s)\<close> of a \<open>Set\<close> are
  that list; \<open>new Set(array)\<close> inserts the elements from left to right.
\<close>

definition Set_has :: "string list \<Rightarrow> string \<Rightarrow> bool" where
  "Set_has s x = (x \<in> set s)"

definition Set_add :: "string \<Rightarrow> string list \<Rightarrow> string list" where
  "Set_add x s = (if x \<in> set s then s else s @ [x])"

definition Set_delete :: "string \<Rightarrow> string list \<Rightarrow> string list" where
  "Set_delete x s = removeAll x s"

definition new_Set :: "string list \<Rightarrow> string list" where
  "new_Set xs = fold Set_add xs []"

text \<open>
  A JavaScript number that holds an array index: an integer (the arithmetic on indices
  is exact far beyond any list length), or \<open>NaN\<close> (what \<open>x % 0\<close> is). The operator
  \<open>%\<close> truncates: the sign of the result is the sign of the dividend.
\<close>

datatype jsnum = Number int | NaN

definition js_rem :: "int \<Rightarrow> int \<Rightarrow> jsnum" where
  "js_rem a b = (if b = 0 then NaN else Number (sgn a * (\<bar>a\<bar> mod \<bar>b\<bar>)))"

section \<open>The dataset and the search criterion\<close>

text \<open>
  An entry of \<open>images\<close> in the JSON document: \<open>architect\<close> is a string or null, \<open>tags\<close>
  an array of strings that may be missing (the code guards every read with
  \<open>img.tags && ...\<close>).
\<close>

record image =
  imageUrl :: string
  architect :: "string option"
  tags :: "string list option"

record subCategory =
  name :: string
  tags :: "string list"

record category =
  category :: string
  subCategories :: "subCategory list"

text \<open>The object \<open>{ tags: [...], architect: ... }\<close> handed to \<open>onSearch\<close>.\<close>

record criterion =
  tags :: "string list"
  architect :: "string option"

text \<open>\<open>img.tags && img.tags.includes(tag)\<close>\<close>

definition tags_includes :: "image \<Rightarrow> string \<Rightarrow> bool" where
  "tags_includes img tag =
     (case image.tags img of None \<Rightarrow> False | Some ts \<Rightarrow> tag \<in> set ts)"

text \<open>
  The callback given to \<open>images.filter\<close>. The same function body stands at three places:
  in \<open>handleSearch\<close> of \<open>SearchPage\<close> (lines 433-439), in \<open>filteredImages\<close> of
  \<open>ResultsPage\<close> (lines 570-576) and in \<open>handleUpdateSearch\<close> (lines 660-666).
\<close>

definition matchesCriteria :: "criterion \<Rightarrow> image \<Rightarrow> bool" where
  "matchesCriteria criteria img =
     (let archMatch =
            (\<not> truthy (criterion.architect criteria)
             \<or> image.architect img = criterion.architect criteria)
      in if \<not> archMatch then False
         else let tagsMatch = list_all (tags_includes img) (criterion.tags criteria)
              in if \<not> tagsMatch then False else True)"

text \<open>\<open>filteredImages\<close> of \<open>ResultsPage\<close>, and \<open>results\<close> and \<open>prospectiveResults\<close>.\<close>

definition filteredImages :: "image list \<Rightarrow> criterion \<Rightarrow> image list" where
  "filteredImages imgs searchCriteria = filter (matchesCriteria searchCriteria) imgs"

text \<open>The tags an image carries, as a set: none when the field is missing.\<close>

definition tag_set :: "image \<Rightarrow> string set" where
  "tag_set img = (case image.tags img of None \<Rightarrow> {} | Some ts \<Rightarrow> set ts)"

section \<open>Component App\<close>

text \<open>
  \<open>view\<close> is the string \<open>'search'\<close> or \<open>'results'\<close>; \<open>appData\<close> is the parsed JSON
  document. The states \<open>loading\<close> and \<open>error\<close> belong to the fetch and are left out:
  no page is rendered before the document is loaded.
\<close>

datatype view = SearchView | ResultsView

record appData =
  taxonomy :: "category list"
  images :: "image list"

record app =
  view :: view
  appData :: appData
  currentSearchCriteria :: criterion

text \<open>The state of \<open>App\<close> before the fetch has answered (the \<open>useState\<close> initialisers).\<close>

definition App_initial :: app where
  "App_initial =
     \<lparr>view = SearchView, appData = \<lparr>taxonomy = [], images = []\<rparr>,
      currentSearchCriteria = \<lparr>tags = [], architect = None\<rparr>\<rparr>"

text \<open>\<open>handleSearch\<close> of \<open>App\<close> (lines 887-890)\<close>

definition App_handleSearch :: "criterion \<Rightarrow> app \<Rightarrow> app" where
  "App_handleSearch criteria a = a\<lparr>currentSearchCriteria := criteria, view := ResultsView\<rparr>"

text \<open>\<open>handleHome\<close> (lines 892-895)\<close>

definition handleHome :: "app \<Rightarrow> app" where
  "handleHome a =
     a\<lparr>view := SearchView, currentSearchCriteria := \<lparr>tags = [], architect = None\<rparr>\<rparr>"

section \<open>The architect option list\<close>

text \<open>
  \<open>[...new Set(images.map(img => img.architect).filter(Boolean))].sort()\<close>. The default
  \<open>sort\<close> orders strings by their code units, lexicographically; the list it sorts has
  no element twice, so the sorted list is determined by the order alone.
\<close>

definition uniqueArchitects :: "image list \<Rightarrow> string list" where
  "uniqueArchitects imgs =
     sort (new_Set (map the (filter truthy (map image.architect imgs))))"

text \<open>
  The effect on \<open>[images]\<close> of \<open>SearchPage\<close> (lines 394-399) and of \<open>ResultsPage\<close>
  (lines 556-561): \<open>if (images && images.length > 0) setArchitectList(...)\<close>.
\<close>

definition architectList_effect :: "image list \<Rightarrow> string list \<Rightarrow> string list" where
  "architectList_effect imgs archList =
     (if length imgs > 0 then uniqueArchitects imgs else archList)"

section \<open>Component ArchitectSelector\<close>

text \<open>
  \<open>handleChange\<close> (lines 306-312), with the props \<open>selectedArchitect\<close> and
  \<open>onArchitectSelect\<close> of the component as arguments; \<open>arch\<close> is its parameter
  \<open>architect\<close>. The radio button "Any / None" calls it with \<open>null\<close>, the button of
  an architect with that architect. (In the model \<open>imgs\<close> stands for the prop
  \<open>images\<close> and \<open>arch\<close> for a variable \<open>architect\<close>: the plain names are the record
  fields.)
\<close>

definition handleChange ::
    "string option \<Rightarrow> (string option \<Rightarrow> 's \<Rightarrow> 's) \<Rightarrow> string option \<Rightarrow> 's \<Rightarrow> 's" where
  "handleChange selectedArch onArchitectSelect arch =
     (if selectedArch = arch then onArchitectSelect None else onArchitectSelect arch)"

text \<open>
  The radio buttons of the component (lines 343-374): "Any / None", whose \<open>checked\<close> is
  \<open>!selectedArchitect\<close>, and one button for each architect of the list (narrowed by the
  filter text), whose \<open>checked\<close> is \<open>selectedArchitect === architect\<close>. \<open>handleChange\<close> is
  the \<open>onChange\<close> of these buttons and has no other caller. A radio button changes only
  when a click checks it, so a click on the button that is checked calls nothing.
\<close>

definition radioChecked :: "string option \<Rightarrow> string option \<Rightarrow> bool" where
  "radioChecked selectedArch arch =
     (case arch of None \<Rightarrow> \<not> truthy selectedArch | Some a \<Rightarrow> selectedArch = Some a)"

definition radioOffered :: "string list \<Rightarrow> string option \<Rightarrow> bool" where
  "radioOffered architects arch = (case arch of None \<Rightarrow> True | Some a \<Rightarrow> a \<in> set architects)"

text \<open>A click on the radio button of \<open>arch\<close> (\<open>None\<close> for "Any / None").\<close>

definition clickRadio ::
    "string list \<Rightarrow> string option \<Rightarrow> (string option \<Rightarrow> 's \<Rightarrow> 's) \<Rightarrow> string option \<Rightarrow> 's \<Rightarrow> 's" where
  "clickRadio architects selectedArch onArchitectSelect arch s =
     (if radioOffered architects arch \<and> \<not> radioChecked selectedArch arch
      then handleChange selectedArch onArchitectSelect arch s
      else s)"

section \<open>Component FilterSentence\<close>

text \<open>
  \<open>handleSearch\<close> of the quick search (lines 161-171). \<open>slotValues\<close> is an object: a list
  of entries with distinct keys. The result is the argument of the call of \<open>onSearch\<close>,
  which is \<open>handleSearch\<close> of \<open>SearchPage\<close>; \<open>None\<close> when nothing is selected and
  \<open>onSearch\<close> is not called.
\<close>

definition FilterSentence_handleSearch :: "(string \<times> string) list \<Rightarrow> criterion option" where
  "FilterSentence_handleSearch slotValues =
     (let selectedTags = map snd (filter (\<lambda>entry. fst entry \<noteq> ''architect'') slotValues);
          arch = or_null (map_of slotValues ''architect'')
      in if length selectedTags > 0 \<or> truthy arch
         then Some \<lparr>tags = selectedTags, architect = arch\<rparr>
         else None)"

section \<open>Component SearchPage\<close>

record searchPage =
  selectedTags :: "string list"
  selectedArchitect :: "string option"
  architectList :: "string list"
  searchError :: "string option"

definition SearchPage_initial :: searchPage where
  "SearchPage_initial =
     \<lparr>selectedTags = [], selectedArchitect = None, architectList = [], searchError = None\<rparr>"

text \<open>\<open>handleTagSelect\<close> (lines 401-412)\<close>

definition handleTagSelect :: "string \<Rightarrow> searchPage \<Rightarrow> searchPage" where
  "handleTagSelect tag s =
     (let newSet = new_Set (selectedTags s)
      in s\<lparr>searchError := None,
           selectedTags :=
             (if Set_has newSet tag then Set_delete tag newSet else Set_add tag newSet)\<rparr>)"

text \<open>\<open>handleArchitectSelect\<close> (lines 414-417)\<close>

definition handleArchitectSelect :: "string option \<Rightarrow> searchPage \<Rightarrow> searchPage" where
  "handleArchitectSelect arch s = s\<lparr>searchError := None, selectedArchitect := arch\<rparr>"

text \<open>\<open>removeTag\<close> and \<open>removeArchitect\<close> (lines 419-429)\<close>

definition removeTag :: "string \<Rightarrow> searchPage \<Rightarrow> searchPage" where
  "removeTag tagToRemove s = s\<lparr>selectedTags := Set_delete tagToRemove (new_Set (selectedTags s))\<rparr>"

definition removeArchitect :: "searchPage \<Rightarrow> searchPage" where
  "removeArchitect s = s\<lparr>selectedArchitect := None\<rparr>"

text \<open>
  The \<open>ArchitectSelector\<close> of the search page (lines 472-476): a click on the radio
  button of the architect \<open>arch\<close> (\<open>None\<close> for "Any / None").
\<close>

definition SearchPage_selectArchitect :: "string option \<Rightarrow> searchPage \<Rightarrow> searchPage" where
  "SearchPage_selectArchitect arch s =
     clickRadio (searchPage.architectList s) (selectedArchitect s) handleArchitectSelect arch s"

text \<open>\<open>hasSelection\<close> (line 448) and the button "Search Images" (lines 485-526), which is
  rendered when it holds; the result is the argument of the call of \<open>handleSearch\<close>.\<close>

definition hasSelection :: "searchPage \<Rightarrow> bool" where
  "hasSelection s = (length (selectedTags s) > 0 \<or> truthy (selectedArchitect s))"

definition searchButton :: "searchPage \<Rightarrow> criterion option" where
  "searchButton s =
     (if hasSelection s then Some \<lparr>tags = selectedTags s, architect = selectedArchitect s\<rparr>
      else None)"

text \<open>
  \<open>handleSearch\<close> of \<open>SearchPage\<close> (lines 431-446). It is called by the button
  "Search Images" with \<open>{tags: Array.from(selectedTags), architect: selectedArchitect}\<close>
  and by the quick search with the criterion built from its slots. The second component
  of the result is the argument of the call \<open>onSearch(criteria)\<close>, \<open>None\<close> when
  \<open>onSearch\<close> is not called.
\<close>

definition SearchPage_handleSearch ::
    "image list \<Rightarrow> criterion \<Rightarrow> searchPage \<Rightarrow> searchPage \<times> criterion option" where
  "SearchPage_handleSearch imgs criteria s =
     (let s1 = s\<lparr>searchError := None\<rparr>;
          results = filter (matchesCriteria criteria) imgs
      in if length results > 0 then (s1, Some criteria)
         else (s1\<lparr>searchError := Some ''No images found matching the selected criteria.''\<rparr>,
               None))"

section \<open>Component ResultsPage\<close>

text \<open>
  The state of the component, without \<open>imageLoading\<close> and \<open>imageError\<close> (the spinner
  and the placeholder of the displayed image).
\<close>

record resultsPage =
  currentIndex :: jsnum
  showConfirmModal :: bool
  tagToSearch :: "string option"
  isSidebarOpen :: bool
  sidebarSelectedTags :: "string list"
  sidebarSelectedArchitect :: "string option"
  sidebarSearchError :: "string option"
  architectList :: "string list"

text \<open>The \<open>useState\<close> initialisers (lines 545-554).\<close>

definition ResultsPage_initial :: "criterion \<Rightarrow> resultsPage" where
  "ResultsPage_initial searchCriteria =
     \<lparr>currentIndex = Number 0, showConfirmModal = False, tagToSearch = None,
      isSidebarOpen = False,
      sidebarSelectedTags = new_Set (criterion.tags searchCriteria),
      sidebarSelectedArchitect = or_null (criterion.architect searchCriteria),
      sidebarSearchError = None, architectList = []\<rparr>"

text \<open>
  The two effects on \<open>[searchCriteria]\<close>: the sidebar selection is seeded from the
  criterion (lines 563-566) and \<open>setCurrentIndex(0)\<close> (lines 582-584).
\<close>

definition searchCriteria_effect :: "criterion \<Rightarrow> resultsPage \<Rightarrow> resultsPage" where
  "searchCriteria_effect searchCriteria r =
     r\<lparr>sidebarSelectedTags := new_Set (criterion.tags searchCriteria),
       sidebarSelectedArchitect := or_null (criterion.architect searchCriteria),
       currentIndex := Number 0\<rparr>"

text \<open>\<open>totalImages\<close> and \<open>currentImage\<close> (lines 579-580); an index out of range reads
  \<open>undefined\<close>.\<close>

definition totalImages :: "image list \<Rightarrow> criterion \<Rightarrow> nat" where
  "totalImages imgs searchCriteria = length (filteredImages imgs searchCriteria)"

definition currentImage :: "image list \<Rightarrow> criterion \<Rightarrow> resultsPage \<Rightarrow> image option" where
  "currentImage imgs searchCriteria r =
     (if totalImages imgs searchCriteria > 0 then
        (case currentIndex r of
           Number i \<Rightarrow>
             if 0 \<le> i \<and> i < int (totalImages imgs searchCriteria)
             then Some (filteredImages imgs searchCriteria ! nat i) else None
         | NaN \<Rightarrow> None)
      else None)"

text \<open>
  \<open>handleNext\<close> and \<open>handlePrevious\<close> (lines 593-599); \<open>totalImgs\<close> is \<open>totalImages\<close> of
  the render the handler belongs to.
\<close>

definition handleNext :: "nat \<Rightarrow> resultsPage \<Rightarrow> resultsPage" where
  "handleNext totalImgs r =
     r\<lparr>currentIndex :=
         (case currentIndex r of
            Number prevIndex \<Rightarrow> js_rem (prevIndex + 1) (int totalImgs)
          | NaN \<Rightarrow> NaN)\<rparr>"

definition handlePrevious :: "nat \<Rightarrow> resultsPage \<Rightarrow> resultsPage" where
  "handlePrevious totalImgs r =
     r\<lparr>currentIndex :=
         (case currentIndex r of
            Number prevIndex \<Rightarrow> js_rem (prevIndex - 1 + int totalImgs) (int totalImgs)
          | NaN \<Rightarrow> NaN)\<rparr>"

text \<open>\<open>handleOtherTagClick\<close>, \<open>confirmNewSearch\<close> and \<open>cancelNewSearch\<close> (lines 601-617).
  The second component of \<open>confirmNewSearch\<close> is the argument of the call of
  \<open>onSearchTag\<close>, \<open>None\<close> when it is not called.\<close>

definition handleOtherTagClick :: "string \<Rightarrow> resultsPage \<Rightarrow> resultsPage" where
  "handleOtherTagClick tag r = r\<lparr>tagToSearch := Some tag, showConfirmModal := True\<rparr>"

definition confirmNewSearch :: "resultsPage \<Rightarrow> resultsPage \<times> criterion option" where
  "confirmNewSearch r =
     (let r' = r\<lparr>showConfirmModal := False, tagToSearch := None\<rparr>
      in if truthy (tagToSearch r)
         then (r', Some \<lparr>tags = [the (tagToSearch r)], architect = None\<rparr>)
         else (r', None))"

definition cancelNewSearch :: "resultsPage \<Rightarrow> resultsPage" where
  "cancelNewSearch r = r\<lparr>showConfirmModal := False, tagToSearch := None\<rparr>"

text \<open>\<open>toggleSidebar\<close>, \<open>handleSidebarTagSelect\<close> and \<open>handleSidebarArchitectSelect\<close>
  (lines 629-651)\<close>

definition toggleSidebar :: "resultsPage \<Rightarrow> resultsPage" where
  "toggleSidebar r = r\<lparr>isSidebarOpen := \<not> isSidebarOpen r\<rparr>"

definition handleSidebarTagSelect :: "string \<Rightarrow> resultsPage \<Rightarrow> resultsPage" where
  "handleSidebarTagSelect tag r =
     (let newSet = new_Set (sidebarSelectedTags r)
      in r\<lparr>sidebarSearchError := None,
           sidebarSelectedTags :=
             (if Set_has newSet tag then Set_delete tag newSet else Set_add tag newSet)\<rparr>)"

definition handleSidebarArchitectSelect :: "string option \<Rightarrow> resultsPage \<Rightarrow> resultsPage" where
  "handleSidebarArchitectSelect arch r =
     (let r1 = r\<lparr>sidebarSearchError := None\<rparr>
      in if sidebarSelectedArchitect r = arch then r1\<lparr>sidebarSelectedArchitect := None\<rparr>
         else r1\<lparr>sidebarSelectedArchitect := arch\<rparr>)"

text \<open>The \<open>ArchitectSelector\<close> of the sidebar (lines 708-712): a click on the radio
  button of \<open>arch\<close>.\<close>

definition Sidebar_selectArchitect :: "string option \<Rightarrow> resultsPage \<Rightarrow> resultsPage" where
  "Sidebar_selectArchitect arch r =
     clickRadio (resultsPage.architectList r) (sidebarSelectedArchitect r)
       handleSidebarArchitectSelect arch r"

text \<open>\<open>handleUpdateSearch\<close> (lines 653-674); the second component is the argument of
  the call of \<open>onSearchTag\<close>.\<close>

definition handleUpdateSearch :: "image list \<Rightarrow> resultsPage \<Rightarrow> resultsPage \<times> criterion option" where
  "handleUpdateSearch imgs r =
     (let r1 = r\<lparr>sidebarSearchError := None\<rparr>;
          newCriteria =
            \<lparr>tags = sidebarSelectedTags r, architect = sidebarSelectedArchitect r\<rparr>;
          prospectiveResults = filter (matchesCriteria newCriteria) imgs
      in if length prospectiveResults > 0
         then (r1\<lparr>isSidebarOpen := False\<rparr>, Some newCriteria)
         else (r1\<lparr>sidebarSearchError := Some ''No images found matching the selected filters.''\<rparr>,
               None))"

section \<open>The rendered application\<close>

text \<open>
  \<open>renderView\<close> (lines 897-921) shows \<open>ResultsPage\<close> when \<open>view\<close> is \<open>'results'\<close> and
  \<open>SearchPage\<close> otherwise. The state of the application is the state of \<open>App\<close> and the
  state of the page that is mounted. A page that replaces the other one is mounted with
  its initial state, and all its effects run; a page that stays keeps its state, and its
  effects on \<open>[searchCriteria]\<close> run when \<open>setCurrentSearchCriteria\<close> was called with a
  new object (every caller passes a fresh object literal).
\<close>

datatype page = SearchPage searchPage | ResultsPage resultsPage

record ui =
  app :: app
  page :: page

definition mount_SearchPage :: "app \<Rightarrow> searchPage" where
  "mount_SearchPage a =
     SearchPage_initial
       \<lparr>searchPage.architectList :=
          architectList_effect (images (appData a)) (searchPage.architectList SearchPage_initial)\<rparr>"

definition mount_ResultsPage :: "app \<Rightarrow> resultsPage" where
  "mount_ResultsPage a =
     (let r0 = ResultsPage_initial (currentSearchCriteria a);
          r1 = r0\<lparr>resultsPage.architectList :=
                    architectList_effect (images (appData a)) (resultsPage.architectList r0)\<rparr>
      in searchCriteria_effect (currentSearchCriteria a) r1)"

definition renderView :: "app \<Rightarrow> page \<Rightarrow> page" where
  "renderView a p =
     (case view a of
        ResultsView \<Rightarrow>
          (case p of
             ResultsPage r \<Rightarrow> ResultsPage (searchCriteria_effect (currentSearchCriteria a) r)
           | SearchPage s \<Rightarrow> ResultsPage (mount_ResultsPage a))
      | SearchView \<Rightarrow>
          (case p of
             SearchPage s \<Rightarrow> SearchPage s
           | ResultsPage r \<Rightarrow> SearchPage (mount_SearchPage a)))"

text \<open>The props \<open>onSearch\<close> and \<open>onSearchTag\<close> (both \<open>handleSearch\<close> of \<open>App\<close>) and
  \<open>onHome\<close>, each followed by the render it causes.\<close>

definition onSearch :: "criterion \<Rightarrow> ui \<Rightarrow> ui" where
  "onSearch criteria u =
     (let a = App_handleSearch criteria (app u) in \<lparr>app = a, page = renderView a (page u)\<rparr>)"

definition onHome :: "ui \<Rightarrow> ui" where
  "onHome u = (let a = handleHome (app u) in \<lparr>app = a, page = renderView a (page u)\<rparr>)"

definition call_onSearch :: "criterion option \<Rightarrow> ui \<Rightarrow> ui" where
  "call_onSearch c u = (case c of None \<Rightarrow> u | Some criteria \<Rightarrow> onSearch criteria u)"

text \<open>The three ways to commit a criterion: the submit of the search page, "Update
  Search" of the sidebar, and "Confirm" of the tag pivot. A handler of a page that is
  not mounted cannot be called.\<close>

definition submitSearch :: "criterion \<Rightarrow> ui \<Rightarrow> ui" where
  "submitSearch criteria u =
     (case page u of
        SearchPage s \<Rightarrow>
          (case SearchPage_handleSearch (images (appData (app u))) criteria s of
             (s', c) \<Rightarrow> call_onSearch c (u\<lparr>page := SearchPage s'\<rparr>))
      | ResultsPage r \<Rightarrow> u)"

definition updateSearch :: "ui \<Rightarrow> ui" where
  "updateSearch u =
     (case page u of
        ResultsPage r \<Rightarrow>
          (case handleUpdateSearch (images (appData (app u))) r of
             (r', c) \<Rightarrow> call_onSearch c (u\<lparr>page := ResultsPage r'\<rparr>))
      | SearchPage s \<Rightarrow> u)"

definition confirmPivot :: "ui \<Rightarrow> ui" where
  "confirmPivot u =
     (case page u of
        ResultsPage r \<Rightarrow>
          (case confirmNewSearch r of
             (r', c) \<Rightarrow> call_onSearch c (u\<lparr>page := ResultsPage r'\<rparr>))
      | SearchPage s \<Rightarrow> u)"

text \<open>The tags that are buttons under the displayed image (lines 826-835).\<close>

definition otherTags :: "ui \<Rightarrow> string list" where
  "otherTags u =
     (case page u of
        ResultsPage r \<Rightarrow>
          (case currentImage (images (appData (app u))) (currentSearchCriteria (app u)) r of
             Some img \<Rightarrow> (case image.tags img of Some ts \<Rightarrow> ts | None \<Rightarrow> [])
           | None \<Rightarrow> [])
      | SearchPage s \<Rightarrow> [])"

text \<open>A click on one of these buttons: \<open>handleOtherTagClick(tag)\<close> (line 830).\<close>

definition clickOtherTag :: "string \<Rightarrow> ui \<Rightarrow> ui" where
  "clickOtherTag tag u =
     (case page u of
        ResultsPage r \<Rightarrow>
          if tag \<in> set (otherTags u) then u\<lparr>page := ResultsPage (handleOtherTagClick tag r)\<rparr>
          else u
      | SearchPage s \<Rightarrow> u)"

text \<open>The navigation cursor, when the results page is shown.\<close>

definition cursor :: "ui \<Rightarrow> jsnum option" where
  "cursor u = (case page u of ResultsPage r \<Rightarrow> Some (currentIndex r) | SearchPage s \<Rightarrow> None)"

text \<open>The number of images a criterion matches in the whole image list.\<close>

definition matchCount :: "ui \<Rightarrow> criterion \<Rightarrow> nat" where
  "matchCount u c = length (filter (matchesCriteria c) (images (appData (app u))))"

text \<open>The error message the mounted page shows: \<open>searchError\<close> under the search form
  (lines 533-537), \<open>sidebarSearchError\<close> in the sidebar (lines 714-718).\<close>

definition localError :: "ui \<Rightarrow> string option" where
  "localError u =
     (case page u of SearchPage s \<Rightarrow> searchError s | ResultsPage r \<Rightarrow> sidebarSearchError r)"

section \<open>Example data\<close>

text \<open>
  Two images \<open>A\<close> and \<open>B\<close> that share the tag \<open>Arch\<close>, and an image whose architect
  and one of whose tags are the empty string. They are the concrete inputs at which the
  theorems below are instantiated.
\<close>

definition imageA :: image where
  "imageA = \<lparr>imageUrl = ''a.jpg'', architect = Some ''Foo'', tags = Some [''Arch'', ''Window'']\<rparr>"

definition imageB :: image where
  "imageB = \<lparr>imageUrl = ''b.jpg'', architect = Some ''Bar'', tags = Some [''Arch'']\<rparr>"

definition imageC :: image where
  "imageC = \<lparr>imageUrl = ''c.jpg'', architect = Some '''', tags = Some [''Arch'', '''']\<rparr>"

definition exampleData :: appData where
  "exampleData = \<lparr>taxonomy = [], images = [imageA, imageB]\<rparr>"

definition criterionArch :: criterion where
  "criterionArch = \<lparr>tags = [''Arch''], architect = None\<rparr>"

text \<open>The search page over the example data, with the page state \<open>s\<close>.\<close>

definition searchUi :: "searchPage \<Rightarrow> ui" where
  "searchUi s =
     \<lparr>app = \<lparr>view = SearchView, appData = exampleData,
             currentSearchCriteria = \<lparr>tags = [], architect = None\<rparr>\<rparr>,
      page = SearchPage s\<rparr>"

text \<open>The results page over the example data, with the active criterion \<open>c\<close>.\<close>

definition resultsUi :: "criterion \<Rightarrow> resultsPage \<Rightarrow> ui" where
  "resultsUi c r =
     \<lparr>app = \<lparr>view = ResultsView, appData = exampleData, currentSearchCriteria = c\<rparr>,
      page = ResultsPage r\<rparr>"

text \<open>The results page for \<open>Arch\<close> over a dataset that holds only the third image.\<close>

definition blankUi :: ui where
  "blankUi =
     \<lparr>app = \<lparr>view = ResultsView, appData = \<lparr>taxonomy = [], images = [imageC]\<rparr>,
             currentSearchCriteria = criterionArch\<rparr>,
      page = ResultsPage (ResultsPage_initial criterionArch)\<rparr>"

lemmas example_defs = imageA_def imageB_def imageC_def exampleData_def criterionArch_def
  searchUi_def resultsUi_def blankUi_def

lemmas model_defs = matchCount_def matchesCriteria_def truthy_def or_null_def tags_includes_def
  submitSearch_def updateSearch_def confirmPivot_def call_onSearch_def onSearch_def
  App_handleSearch_def renderView_def mount_ResultsPage_def searchCriteria_effect_def
  ResultsPage_initial_def SearchPage_handleSearch_def handleUpdateSearch_def
  confirmNewSearch_def cursor_def new_Set_def Set_add_def architectList_effect_def
  filteredImages_def totalImages_def otherTags_def currentImage_def clickOtherTag_def
  handleOtherTagClick_def localError_def handleHome_def onHome_def mount_SearchPage_def
  SearchPage_initial_def uniqueArchitects_def

section \<open>The match relation\<close>

lemma tags_includes_tag_set: "tags_includes img tag \<longleftrightarrow> tag \<in> tag_set img"
  by (simp add: tags_includes_def tag_set_def split: option.split)

lemma matchesCriteria_iff:
  "matchesCriteria c img \<longleftrightarrow>
     (\<not> truthy (criterion.architect c) \<or> image.architect img = criterion.architect c)
     \<and> set (criterion.tags c) \<subseteq> tag_set img"
  by (auto simp add: matchesCriteria_def Let_def list_all_iff tags_includes_tag_set)

lemma not_truthy_iff: "\<not> truthy v \<longleftrightarrow> v = None \<or> v = Some []"
  by (simp add: truthy_def split: option.split)

text \<open>
  C1. The filter predicate used at commit time and in the results page holds of an image
  \<open>img\<close> and a criterion \<open>c\<close> if and only if the architect of \<open>c\<close> is null or equal to
  the architect of \<open>img\<close>, and every tag of \<open>c\<close> is among the tags of \<open>img\<close>; the empty
  criterion matches every image, so the filter returns the whole image list for it.
  The criterion is one the program builds: its architect is null or a name, never the empty
  string (section "The architect of a criterion" below goes through the places that build
  one).
\<close>

theorem C1_matches_iff:
  assumes "criterion.architect c \<noteq> Some ''''"
  shows "(matchesCriteria c img \<longleftrightarrow>
      (criterion.architect c = None \<or> image.architect img = criterion.architect c)
      \<and> set (criterion.tags c) \<subseteq> tag_set img)
   \<and> matchesCriteria \<lparr>tags = [], architect = None\<rparr> img
   \<and> filteredImages imgs \<lparr>tags = [], architect = None\<rparr> = imgs"
  using assms unfolding filteredImages_def matchesCriteria_iff not_truthy_iff
  by (auto simp add: tag_set_def)

theorem C1_matches_iff_witness:
  "matchesCriteria \<lparr>tags = [''Arch''], architect = Some ''Foo''\<rparr> imageA
   \<and> \<not> matchesCriteria \<lparr>tags = [''Arch''], architect = Some ''Foo''\<rparr> imageB
   \<and> \<not> matchesCriteria \<lparr>tags = [''Window''], architect = None\<rparr> imageB
   \<and> matchesCriteria \<lparr>tags = [''Arch''], architect = None\<rparr> imageB"
proof -
  have foo: "criterion.architect \<lparr>tags = [''Arch''], architect = Some ''Foo''\<rparr> \<noteq> Some ''''"
    by simp
  have win: "criterion.architect \<lparr>tags = [''Window''], architect = None\<rparr> \<noteq> Some ''''"
    by simp
  have arch: "criterion.architect \<lparr>tags = [''Arch''], architect = None\<rparr> \<noteq> Some ''''"
    by simp
  from C1_matches_iff [OF foo, of imageA "[]"] C1_matches_iff [OF foo, of imageB "[]"]
    C1_matches_iff [OF win, of imageB "[]"] C1_matches_iff [OF arch, of imageB "[]"]
  show ?thesis
    by (simp add: tag_set_def imageA_def imageB_def)
qed

section \<open>What a call of \<open>onSearch\<close> does\<close>

lemma app_onSearch:
  "app (onSearch c u) = (app u)\<lparr>currentSearchCriteria := c, view := ResultsView\<rparr>"
  by (simp add: onSearch_def App_handleSearch_def Let_def)

lemma page_onSearch_SearchPage:
  "page u = SearchPage s \<Longrightarrow>
     page (onSearch c u) = ResultsPage (mount_ResultsPage (App_handleSearch c (app u)))"
  by (simp add: onSearch_def App_handleSearch_def renderView_def Let_def)

lemma page_onSearch_ResultsPage:
  "page u = ResultsPage r \<Longrightarrow>
     page (onSearch c u) = ResultsPage (searchCriteria_effect c r)"
  by (simp add: onSearch_def App_handleSearch_def renderView_def Let_def)

lemma cursor_onSearch: "cursor (onSearch c u) = Some (Number 0)"
  by (simp add: cursor_def onSearch_def App_handleSearch_def renderView_def Let_def
      mount_ResultsPage_def searchCriteria_effect_def split: page.split)

section \<open>Commit validation\<close>

lemma submitSearch_zero:
  assumes "page u = SearchPage s" and "matchCount u c = 0"
  shows "submitSearch c u =
    u\<lparr>page := SearchPage (s\<lparr>searchError := Some ''No images found matching the selected criteria.''\<rparr>)\<rparr>"
  using assms
  by (simp add: submitSearch_def SearchPage_handleSearch_def matchCount_def Let_def
      call_onSearch_def)

lemma submitSearch_pos:
  assumes "page u = SearchPage s" and "1 \<le> matchCount u c"
  shows "submitSearch c u = onSearch c (u\<lparr>page := SearchPage (s\<lparr>searchError := None\<rparr>)\<rparr>)"
  using assms
  by (auto simp add: submitSearch_def SearchPage_handleSearch_def matchCount_def Let_def
      call_onSearch_def)

lemma updateSearch_zero:
  assumes "page u = ResultsPage r"
    and "matchCount u \<lparr>tags = sidebarSelectedTags r, architect = sidebarSelectedArchitect r\<rparr> = 0"
  shows "updateSearch u =
    u\<lparr>page := ResultsPage (r\<lparr>sidebarSearchError := Some ''No images found matching the selected filters.''\<rparr>)\<rparr>"
  using assms
  by (simp add: updateSearch_def handleUpdateSearch_def matchCount_def Let_def
      call_onSearch_def)

lemma updateSearch_pos:
  assumes "page u = ResultsPage r"
    and "1 \<le> matchCount u \<lparr>tags = sidebarSelectedTags r, architect = sidebarSelectedArchitect r\<rparr>"
  shows "updateSearch u =
    onSearch \<lparr>tags = sidebarSelectedTags r, architect = sidebarSelectedArchitect r\<rparr>
      (u\<lparr>page := ResultsPage (r\<lparr>sidebarSearchError := None, isSidebarOpen := False\<rparr>)\<rparr>)"
  using assms
  by (auto simp add: updateSearch_def handleUpdateSearch_def matchCount_def Let_def
      call_onSearch_def)

text \<open>
  C2, as stated, fails in the sidebar. "Update Search" with a selection that matches no
  image shows the message "No images found matching the selected filters.", not the
  message of the search page; and "Update Search" with a selection that matches an image
  leaves the view as it was (the results page), and leaves the active criterion as it was
  when the selection is the active criterion.
\<close>

theorem C2_counterexample:
  "matchCount (resultsUi criterionArch
        ((ResultsPage_initial criterionArch)\<lparr>sidebarSelectedTags := [''Nonexistent'']\<rparr>))
      \<lparr>tags = [''Nonexistent''], architect = None\<rparr> = 0
   \<and> localError (updateSearch (resultsUi criterionArch
        ((ResultsPage_initial criterionArch)\<lparr>sidebarSelectedTags := [''Nonexistent'']\<rparr>)))
       = Some ''No images found matching the selected filters.''
   \<and> localError (updateSearch (resultsUi criterionArch
        ((ResultsPage_initial criterionArch)\<lparr>sidebarSelectedTags := [''Nonexistent'']\<rparr>)))
       \<noteq> Some ''No images found matching the selected criteria.''
   \<and> 1 \<le> matchCount (resultsUi criterionArch (ResultsPage_initial criterionArch)) criterionArch
   \<and> view (app (updateSearch (resultsUi criterionArch (ResultsPage_initial criterionArch))))
       = view (app (resultsUi criterionArch (ResultsPage_initial criterionArch)))
   \<and> currentSearchCriteria
         (app (updateSearch (resultsUi criterionArch (ResultsPage_initial criterionArch))))
       = currentSearchCriteria (app (resultsUi criterionArch (ResultsPage_initial criterionArch)))"
  by (simp add: model_defs example_defs)

text \<open>
  C2, amended. A criterion \<open>c\<close> submitted from the search page: if it matches no image of
  the full image list, the state of \<open>App\<close> (active criterion and view) is unchanged and
  the search page shows "No images found matching the selected criteria."; if it matches
  at least one image, \<open>c\<close> becomes the active criterion and the view becomes the results
  page (a change, the view having been the search page), mounted afresh. The selection of
  the refine sidebar submitted by "Update Search": if it matches no image, the state of
  \<open>App\<close> is unchanged and the sidebar shows "No images found matching the selected
  filters."; if it matches at least one image, it becomes the active criterion, the view
  stays the results page, the sidebar closes and the effects of the new criterion run.
\<close>

theorem C2_commit_validation:
  "(page u = SearchPage s \<longrightarrow>
      (matchCount u c = 0 \<longrightarrow>
         app (submitSearch c u) = app u
         \<and> page (submitSearch c u) =
             SearchPage (s\<lparr>searchError := Some ''No images found matching the selected criteria.''\<rparr>))
      \<and> (1 \<le> matchCount u c \<longrightarrow>
         currentSearchCriteria (app (submitSearch c u)) = c
         \<and> view (app (submitSearch c u)) = ResultsView
         \<and> (view (app u) = SearchView \<longrightarrow> view (app (submitSearch c u)) \<noteq> view (app u))
         \<and> page (submitSearch c u) = ResultsPage (mount_ResultsPage (App_handleSearch c (app u)))))
   \<and> (page u = ResultsPage r \<longrightarrow>
      (matchCount u \<lparr>tags = sidebarSelectedTags r, architect = sidebarSelectedArchitect r\<rparr> = 0 \<longrightarrow>
         app (updateSearch u) = app u
         \<and> page (updateSearch u) =
             ResultsPage (r\<lparr>sidebarSearchError := Some ''No images found matching the selected filters.''\<rparr>))
      \<and> (1 \<le> matchCount u \<lparr>tags = sidebarSelectedTags r, architect = sidebarSelectedArchitect r\<rparr> \<longrightarrow>
         currentSearchCriteria (app (updateSearch u))
           = \<lparr>tags = sidebarSelectedTags r, architect = sidebarSelectedArchitect r\<rparr>
         \<and> view (app (updateSearch u)) = ResultsView
         \<and> page (updateSearch u) =
             ResultsPage (searchCriteria_effect
               \<lparr>tags = sidebarSelectedTags r, architect = sidebarSelectedArchitect r\<rparr>
               (r\<lparr>sidebarSearchError := None, isSidebarOpen := False\<rparr>))))"
proof (intro conjI impI)
  assume p: "page u = SearchPage s" and z: "matchCount u c = 0"
  show "app (submitSearch c u) = app u"
    by (simp add: submitSearch_zero [OF p z])
  show "page (submitSearch c u) =
      SearchPage (s\<lparr>searchError := Some ''No images found matching the selected criteria.''\<rparr>)"
    by (simp add: submitSearch_zero [OF p z])
next
  assume p: "page u = SearchPage s" and m: "1 \<le> matchCount u c"
  note eq = submitSearch_pos [OF p m]
  show "currentSearchCriteria (app (submitSearch c u)) = c"
    by (simp add: eq app_onSearch)
  show "view (app (submitSearch c u)) = ResultsView"
    by (simp add: eq app_onSearch)
  show "page (submitSearch c u) = ResultsPage (mount_ResultsPage (App_handleSearch c (app u)))"
    by (simp add: eq page_onSearch_SearchPage)
  assume "view (app u) = SearchView"
  then show "view (app (submitSearch c u)) \<noteq> view (app u)"
    by (simp add: eq app_onSearch)
next
  let ?c = "\<lparr>tags = sidebarSelectedTags r, architect = sidebarSelectedArchitect r\<rparr>"
  assume p: "page u = ResultsPage r" and z: "matchCount u ?c = 0"
  show "app (updateSearch u) = app u"
    by (simp add: updateSearch_zero [OF p z])
  show "page (updateSearch u) =
      ResultsPage (r\<lparr>sidebarSearchError := Some ''No images found matching the selected filters.''\<rparr>)"
    by (simp add: updateSearch_zero [OF p z])
next
  let ?c = "\<lparr>tags = sidebarSelectedTags r, architect = sidebarSelectedArchitect r\<rparr>"
  assume p: "page u = ResultsPage r" and m: "1 \<le> matchCount u ?c"
  note eq = updateSearch_pos [OF p m]
  show "currentSearchCriteria (app (updateSearch u)) = ?c"
    by (simp add: eq app_onSearch)
  show "view (app (updateSearch u)) = ResultsView"
    by (simp add: eq app_onSearch)
  show "page (updateSearch u) =
      ResultsPage (searchCriteria_effect ?c (r\<lparr>sidebarSearchError := None, isSidebarOpen := False\<rparr>))"
    by (simp add: eq page_onSearch_ResultsPage)
qed

theorem C2_commit_validation_witness:
  "app (submitSearch \<lparr>tags = [''Nonexistent''], architect = None\<rparr> (searchUi SearchPage_initial))
     = app (searchUi SearchPage_initial)
   \<and> localError (submitSearch \<lparr>tags = [''Nonexistent''], architect = None\<rparr>
        (searchUi SearchPage_initial))
       = Some ''No images found matching the selected criteria.''
   \<and> currentSearchCriteria (app (submitSearch \<lparr>tags = [''Arch''], architect = Some ''Foo''\<rparr>
        (searchUi SearchPage_initial)))
       = \<lparr>tags = [''Arch''], architect = Some ''Foo''\<rparr>
   \<and> view (app (submitSearch \<lparr>tags = [''Arch''], architect = Some ''Foo''\<rparr>
        (searchUi SearchPage_initial))) = ResultsView
   \<and> app (updateSearch (resultsUi criterionArch
        ((ResultsPage_initial criterionArch)\<lparr>sidebarSelectedTags := [''Nonexistent'']\<rparr>)))
       = app (resultsUi criterionArch
        ((ResultsPage_initial criterionArch)\<lparr>sidebarSelectedTags := [''Nonexistent'']\<rparr>))
   \<and> currentSearchCriteria (app (updateSearch (resultsUi criterionArch
        ((ResultsPage_initial criterionArch)\<lparr>sidebarSelectedTags := [''Window'']\<rparr>))))
       = \<lparr>tags = [''Window''], architect = None\<rparr>"
proof -
  let ?s = "searchUi SearchPage_initial"
  let ?none = "\<lparr>tags = [''Nonexistent''], architect = None\<rparr>"
  let ?foo = "\<lparr>tags = [''Arch''], architect = Some ''Foo''\<rparr>"
  let ?r0 = "(ResultsPage_initial criterionArch)\<lparr>sidebarSelectedTags := [''Nonexistent'']\<rparr>"
  let ?r1 = "(ResultsPage_initial criterionArch)\<lparr>sidebarSelectedTags := [''Window'']\<rparr>"
  have ps: "page ?s = SearchPage SearchPage_initial" by (simp add: searchUi_def)
  have z: "matchCount ?s ?none = 0" by (simp add: model_defs example_defs)
  have m: "1 \<le> matchCount ?s ?foo" by (simp add: model_defs example_defs)
  have p0: "page (resultsUi criterionArch ?r0) = ResultsPage ?r0" by (simp add: resultsUi_def)
  have p1: "page (resultsUi criterionArch ?r1) = ResultsPage ?r1" by (simp add: resultsUi_def)
  have z0: "matchCount (resultsUi criterionArch ?r0)
      \<lparr>tags = sidebarSelectedTags ?r0, architect = sidebarSelectedArchitect ?r0\<rparr> = 0"
    by (simp add: model_defs example_defs)
  have m1: "1 \<le> matchCount (resultsUi criterionArch ?r1)
      \<lparr>tags = sidebarSelectedTags ?r1, architect = sidebarSelectedArchitect ?r1\<rparr>"
    by (simp add: model_defs example_defs)
  have s1: "sidebarSelectedTags ?r1 = [''Window'']" "sidebarSelectedArchitect ?r1 = None"
    by (simp_all add: model_defs example_defs)
  from C2_commit_validation [of ?s SearchPage_initial ?none ?r0] ps z
  have a: "app (submitSearch ?none ?s) = app ?s"
    and b: "localError (submitSearch ?none ?s)
       = Some ''No images found matching the selected criteria.''"
    by (simp_all add: localError_def)
  from C2_commit_validation [of ?s SearchPage_initial ?foo ?r0] ps m
  have c: "currentSearchCriteria (app (submitSearch ?foo ?s)) = ?foo"
    and d: "view (app (submitSearch ?foo ?s)) = ResultsView"
    by blast+
  from C2_commit_validation [of "resultsUi criterionArch ?r0" SearchPage_initial ?none ?r0] p0 z0
  have e: "app (updateSearch (resultsUi criterionArch ?r0)) = app (resultsUi criterionArch ?r0)"
    by blast
  from C2_commit_validation [of "resultsUi criterionArch ?r1" SearchPage_initial ?none ?r1] p1 m1
  have f: "currentSearchCriteria (app (updateSearch (resultsUi criterionArch ?r1)))
      = \<lparr>tags = [''Window''], architect = None\<rparr>"
    unfolding s1 by blast
  from a b c d e f show ?thesis by blast
qed

section \<open>The tag pivot\<close>

lemma confirmPivot_truthy:
  assumes "page u = ResultsPage r" and "tagToSearch r = Some t" and "t \<noteq> []"
  shows "confirmPivot u =
    onSearch \<lparr>tags = [t], architect = None\<rparr>
      (u\<lparr>page := ResultsPage (r\<lparr>showConfirmModal := False, tagToSearch := None\<rparr>)\<rparr>)"
  using assms
  by (simp add: confirmPivot_def confirmNewSearch_def truthy_def Let_def call_onSearch_def)






text \<open>
  C4, as stated, fails for the empty tag. The displayed image carries the tag \<open>''''\<close>;
  a click on its button and "Confirm" leave the active criterion \<open>{tags: [Arch]}\<close> in
  place, because \<open>if (tagToSearch)\<close> is false of the empty string and \<open>onSearchTag\<close> is not
  called.
\<close>

theorem C4_counterexample:
  "'''' \<in> set (otherTags blankUi)
   \<and> currentSearchCriteria (app (confirmPivot (clickOtherTag '''' blankUi))) = criterionArch
   \<and> currentSearchCriteria (app (confirmPivot (clickOtherTag '''' blankUi)))
       \<noteq> \<lparr>tags = [''''], architect = None\<rparr>"
  by (simp add: model_defs example_defs)

text \<open>
  C4, amended. Confirming a tag pivot whose selected tag \<open>t\<close> is not the empty string
  always produces the criterion \<open>{tags: [t], architect: null}\<close>, exactly the one selected
  tag and no architect, and makes it the active criterion, for every previously active
  criterion \<open>c0\<close>, whatever tags and architect it contained.
\<close>

theorem C4_pivot_criterion:
  assumes "page u = ResultsPage r" and "tagToSearch r = Some t" and "t \<noteq> []"
  shows "snd (confirmNewSearch r) = Some \<lparr>tags = [t], architect = None\<rparr>
       \<and> currentSearchCriteria
           (app (confirmPivot (u\<lparr>app := (app u)\<lparr>currentSearchCriteria := c0\<rparr>\<rparr>)))
         = \<lparr>tags = [t], architect = None\<rparr>"
proof -
  have "snd (confirmNewSearch r) = Some \<lparr>tags = [t], architect = None\<rparr>"
    using assms(2,3) by (simp add: confirmNewSearch_def truthy_def Let_def)
  moreover have "page (u\<lparr>app := (app u)\<lparr>currentSearchCriteria := c0\<rparr>\<rparr>) = ResultsPage r"
    using assms(1) by simp
  from confirmPivot_truthy [OF this assms(2,3)]
  have "currentSearchCriteria
           (app (confirmPivot (u\<lparr>app := (app u)\<lparr>currentSearchCriteria := c0\<rparr>\<rparr>)))
         = \<lparr>tags = [t], architect = None\<rparr>"
    by (simp add: app_onSearch)
  ultimately show ?thesis by simp
qed

theorem C4_pivot_criterion_witness:
  "currentSearchCriteria (app (confirmPivot
      (resultsUi \<lparr>tags = [''Arch''], architect = Some ''Foo''\<rparr>
         ((ResultsPage_initial criterionArch)\<lparr>tagToSearch := Some ''Window''\<rparr>))))
     = \<lparr>tags = [''Window''], architect = None\<rparr>"
proof -
  let ?r = "(ResultsPage_initial criterionArch)\<lparr>tagToSearch := Some ''Window''\<rparr>"
  let ?u = "resultsUi criterionArch ?r"
  have p: "page ?u = ResultsPage ?r" by (simp add: resultsUi_def)
  have t: "tagToSearch ?r = Some ''Window''" by simp
  have n: "''Window'' \<noteq> []" by simp
  from C4_pivot_criterion [OF p t n, of "\<lparr>tags = [''Arch''], architect = Some ''Foo''\<rparr>"]
  show ?thesis by (simp add: resultsUi_def)
qed

section \<open>The results navigator\<close>

lemma js_rem_nonneg: "0 \<le> a \<Longrightarrow> 0 < b \<Longrightarrow> js_rem a b = Number (a mod b)"
  by (simp add: js_rem_def sgn_if)

lemma currentIndex_handleNext:
  "0 < N \<Longrightarrow> 0 \<le> i \<Longrightarrow> currentIndex r = Number i \<Longrightarrow>
     currentIndex (handleNext N r) = Number ((i + 1) mod int N)"
  by (simp add: handleNext_def js_rem_nonneg)

lemma currentIndex_handlePrevious:
  "0 < N \<Longrightarrow> 0 \<le> i \<Longrightarrow> currentIndex r = Number i \<Longrightarrow>
     currentIndex (handlePrevious N r) = Number ((i - 1 + int N) mod int N)"
  by (simp add: handlePrevious_def js_rem_nonneg)

lemma handleNext_iterate:
  assumes "0 < N" "0 \<le> i" "currentIndex r = Number i" "i < int N"
  shows "currentIndex ((handleNext N ^^ k) r) = Number ((i + int k) mod int N)"
proof (induction k)
  case 0
  show ?case using assms by simp
next
  case (Suc k)
  have "0 \<le> (i + int k) mod int N" using assms by simp
  from currentIndex_handleNext [OF assms(1) this Suc.IH]
  show ?case by (simp add: mod_simps ac_simps)
qed

text \<open>
  C5. Let \<open>N > 0\<close> be the length of the filtered image list and \<open>0 \<le> i < N\<close> the cursor.
  \<open>handleNext\<close> applied \<open>N\<close> times brings the cursor back to \<open>i\<close>; one application
  yields \<open>(i + 1) mod N\<close>, and one application of \<open>handlePrevious\<close> yields
  \<open>(i - 1 + N) mod N\<close>, which from the cursor \<open>0\<close> is \<open>N - 1\<close>; when \<open>N = 1\<close> both leave
  the cursor at \<open>0\<close>.
\<close>

theorem C5_navigator_wraparound:
  assumes "N = totalImages imgs c" and "0 < N" and "0 \<le> i" and "i < int N"
    and "currentIndex r = Number i" and "currentIndex r0 = Number 0"
  shows "currentIndex ((handleNext N ^^ N) r) = Number i
       \<and> currentIndex (handleNext N r) = Number ((i + 1) mod int N)
       \<and> currentIndex (handlePrevious N r) = Number ((i - 1 + int N) mod int N)
       \<and> currentIndex (handlePrevious N r0) = Number (int N - 1)
       \<and> (N = 1 \<longrightarrow> currentIndex (handleNext N r) = Number 0
                   \<and> currentIndex (handlePrevious N r) = Number 0)"
proof -
  have a: "currentIndex ((handleNext N ^^ N) r) = Number i"
    using handleNext_iterate [OF assms(2,3,5,4), of N] assms(3,4) by simp
  have b: "currentIndex (handleNext N r) = Number ((i + 1) mod int N)"
    by (rule currentIndex_handleNext [OF assms(2,3,5)])
  have c: "currentIndex (handlePrevious N r) = Number ((i - 1 + int N) mod int N)"
    by (rule currentIndex_handlePrevious [OF assms(2,3,5)])
  have d: "currentIndex (handlePrevious N r0) = Number (int N - 1)"
    using currentIndex_handlePrevious [OF assms(2) _ assms(6)] assms(2)
    by (simp add: zmod_minus1)
  have e: "N = 1 \<longrightarrow> currentIndex (handleNext N r) = Number 0
                   \<and> currentIndex (handlePrevious N r) = Number 0"
  proof
    assume "N = 1"
    with b c show "currentIndex (handleNext N r) = Number 0
                   \<and> currentIndex (handlePrevious N r) = Number 0"
      by simp
  qed
  from a b c d e show ?thesis by blast
qed

theorem C5_navigator_wraparound_witness:
  "totalImages [imageA, imageB] criterionArch = 2
   \<and> currentIndex ((handleNext 2 ^^ 2)
         ((ResultsPage_initial criterionArch)\<lparr>currentIndex := Number 1\<rparr>)) = Number 1
   \<and> currentIndex (handlePrevious 2 (ResultsPage_initial criterionArch)) = Number 1"
proof -
  have t: "2 = totalImages [imageA, imageB] criterionArch"
    by (simp add: model_defs example_defs)
  have i: "currentIndex ((ResultsPage_initial criterionArch)\<lparr>currentIndex := Number 1\<rparr>) = Number 1"
    by simp
  have z: "currentIndex (ResultsPage_initial criterionArch) = Number 0"
    by (simp add: ResultsPage_initial_def)
  from C5_navigator_wraparound [OF t _ _ _ i z] t
  show ?thesis by simp
qed

section \<open>Cursor reset\<close>

lemma submitSearch_cases:
  "submitSearch c u = u \<or> app (submitSearch c u) = app u \<or> (\<exists>u'. submitSearch c u = onSearch c u')"
  by (auto simp add: submitSearch_def SearchPage_handleSearch_def Let_def call_onSearch_def
      split: page.split)

lemma updateSearch_cases:
  "app (updateSearch u) = app u \<or> (\<exists>c u'. updateSearch u = onSearch c u')"
  by (auto simp add: updateSearch_def handleUpdateSearch_def Let_def call_onSearch_def
      split: page.split)

lemma confirmPivot_cases:
  "app (confirmPivot u) = app u \<or> (\<exists>c u'. confirmPivot u = onSearch c u')"
  by (auto simp add: confirmPivot_def confirmNewSearch_def Let_def call_onSearch_def
      split: page.split)

text \<open>
  C6. After every call of \<open>onSearch\<close> the results page is shown with the cursor at \<open>0\<close>.
  Hence, whenever the submit of the search page, "Update Search" of the sidebar or the
  confirmed tag pivot changes the active criterion, the cursor is \<open>0\<close> afterwards, for
  every state before, and so for every cursor value before.
\<close>

theorem C6_cursor_reset:
  "cursor (onSearch c u) = Some (Number 0)
   \<and> (currentSearchCriteria (app (submitSearch c u)) \<noteq> currentSearchCriteria (app u)
        \<longrightarrow> cursor (submitSearch c u) = Some (Number 0))
   \<and> (currentSearchCriteria (app (updateSearch u)) \<noteq> currentSearchCriteria (app u)
        \<longrightarrow> cursor (updateSearch u) = Some (Number 0))
   \<and> (currentSearchCriteria (app (confirmPivot u)) \<noteq> currentSearchCriteria (app u)
        \<longrightarrow> cursor (confirmPivot u) = Some (Number 0))"
  using submitSearch_cases [of c u] updateSearch_cases [of u] confirmPivot_cases [of u]
  by (auto simp add: cursor_onSearch)

theorem C6_cursor_reset_witness:
  "cursor (resultsUi criterionArch
      ((ResultsPage_initial criterionArch)
         \<lparr>currentIndex := Number 1, sidebarSelectedTags := [''Window'']\<rparr>)) = Some (Number 1)
   \<and> currentSearchCriteria (app (updateSearch (resultsUi criterionArch
      ((ResultsPage_initial criterionArch)
         \<lparr>currentIndex := Number 1, sidebarSelectedTags := [''Window'']\<rparr>))))
       = \<lparr>tags = [''Window''], architect = None\<rparr>
   \<and> cursor (updateSearch (resultsUi criterionArch
      ((ResultsPage_initial criterionArch)
         \<lparr>currentIndex := Number 1, sidebarSelectedTags := [''Window'']\<rparr>))) = Some (Number 0)"
proof -
  let ?u = "resultsUi criterionArch ((ResultsPage_initial criterionArch)
         \<lparr>currentIndex := Number 1, sidebarSelectedTags := [''Window'']\<rparr>)"
  have a: "cursor ?u = Some (Number 1)" by (simp add: model_defs example_defs)
  have b: "currentSearchCriteria (app (updateSearch ?u)) = \<lparr>tags = [''Window''], architect = None\<rparr>"
    by (simp add: model_defs example_defs)
  have "currentSearchCriteria (app (updateSearch ?u)) \<noteq> currentSearchCriteria (app ?u)"
    by (simp add: b) (simp add: model_defs example_defs)
  with C6_cursor_reset [of criterionArch ?u] have "cursor (updateSearch ?u) = Some (Number 0)"
    by blast
  with a b show ?thesis by blast
qed

section \<open>The selection of tags and of an architect\<close>

lemma fold_Set_add_set: "set (fold Set_add xs acc) = set acc \<union> set xs"
  by (induction xs arbitrary: acc) (auto simp add: Set_add_def)

lemma fold_Set_add_distinct: "distinct acc \<Longrightarrow> distinct (fold Set_add xs acc)"
  by (induction xs arbitrary: acc) (auto simp add: Set_add_def)

lemma fold_Set_add_id: "distinct (acc @ xs) \<Longrightarrow> fold Set_add xs acc = acc @ xs"
  by (induction xs arbitrary: acc) (auto simp add: Set_add_def)

lemma set_new_Set: "set (new_Set xs) = set xs"
  by (simp add: new_Set_def fold_Set_add_set)

lemma distinct_new_Set: "distinct (new_Set xs)"
  by (simp add: new_Set_def fold_Set_add_distinct)

text \<open>\<open>new Set(s)\<close> of a \<open>Set\<close> is a copy of it.\<close>

lemma new_Set_of_Set: "distinct xs \<Longrightarrow> new_Set xs = xs"
  by (simp add: new_Set_def fold_Set_add_id)

lemma set_toggle:
  "set (if Set_has (new_Set s) t then Set_delete t (new_Set s) else Set_add t (new_Set s))
     = (if t \<in> set s then set s - {t} else insert t (set s))"
  by (auto simp add: Set_has_def Set_delete_def Set_add_def set_new_Set)

lemma selectedTags_handleTagSelect:
  "set (selectedTags (handleTagSelect t s))
     = (if t \<in> set (selectedTags s) then set (selectedTags s) - {t}
        else insert t (set (selectedTags s)))"
  by (simp add: handleTagSelect_def Let_def set_toggle)

lemma sidebarSelectedTags_handleSidebarTagSelect:
  "set (sidebarSelectedTags (handleSidebarTagSelect t r))
     = (if t \<in> set (sidebarSelectedTags r) then set (sidebarSelectedTags r) - {t}
        else insert t (set (sidebarSelectedTags r)))"
  by (simp add: handleSidebarTagSelect_def Let_def set_toggle)

text \<open>
  C7. For every tag \<open>t\<close>, in the selection of the search page and in the selection of the
  sidebar: toggling \<open>t\<close> twice in succession gives back the set of selected tags (and
  leaves the selected architect alone); the first toggle removes \<open>t\<close> if it is selected
  and adds it if it is not.
\<close>

theorem C7_toggleTag_twice:
  "set (selectedTags (handleTagSelect t (handleTagSelect t s))) = set (selectedTags s)
   \<and> selectedArchitect (handleTagSelect t (handleTagSelect t s)) = selectedArchitect s
   \<and> set (sidebarSelectedTags (handleSidebarTagSelect t (handleSidebarTagSelect t r)))
       = set (sidebarSelectedTags r)
   \<and> sidebarSelectedArchitect (handleSidebarTagSelect t (handleSidebarTagSelect t r))
       = sidebarSelectedArchitect r
   \<and> set (selectedTags (handleTagSelect t s))
       = (if t \<in> set (selectedTags s) then set (selectedTags s) - {t}
          else insert t (set (selectedTags s)))
   \<and> set (sidebarSelectedTags (handleSidebarTagSelect t r))
       = (if t \<in> set (sidebarSelectedTags r) then set (sidebarSelectedTags r) - {t}
          else insert t (set (sidebarSelectedTags r)))"
proof -
  have "selectedArchitect (handleTagSelect t (handleTagSelect t s)) = selectedArchitect s"
    by (simp add: handleTagSelect_def Let_def)
  moreover have "sidebarSelectedArchitect (handleSidebarTagSelect t (handleSidebarTagSelect t r))
       = sidebarSelectedArchitect r"
    by (simp add: handleSidebarTagSelect_def Let_def)
  ultimately show ?thesis
    by (auto simp add: selectedTags_handleTagSelect sidebarSelectedTags_handleSidebarTagSelect)
qed

text \<open>What the handlers do when they are called: the selected architect is cleared, any
  other one replaces the selection.\<close>

lemma handleChange_toggle:
  "selectedArchitect (handleChange (selectedArchitect s) handleArchitectSelect a s)
     = (if selectedArchitect s = a then None else a)
   \<and> sidebarSelectedArchitect
        (handleChange (sidebarSelectedArchitect r) handleSidebarArchitectSelect a r)
     = (if sidebarSelectedArchitect r = a then None else a)
   \<and> sidebarSelectedArchitect (handleSidebarArchitectSelect a r)
     = (if sidebarSelectedArchitect r = a then None else a)"
  by (simp add: handleChange_def handleArchitectSelect_def handleSidebarArchitectSelect_def
      Let_def)

lemma radioChecked_same: "radioChecked sel sel"
  by (cases sel) (simp_all add: radioChecked_def truthy_def)

lemma radio_not_checked: "\<not> radioChecked sel a \<Longrightarrow> sel \<noteq> a"
  using radioChecked_same by blast

lemma clickRadio_fires:
  "radioOffered l a \<Longrightarrow> \<not> radioChecked sel a \<Longrightarrow> clickRadio l sel f a s = f a s"
  unfolding clickRadio_def handleChange_def
  by (simp add: radio_not_checked)

lemma clickRadio_checked: "radioChecked sel a \<Longrightarrow> clickRadio l sel f a s = s"
  by (simp add: clickRadio_def)

lemma clickRadio_not_offered: "\<not> radioOffered l a \<Longrightarrow> clickRadio l sel f a s = s"
  by (simp add: clickRadio_def)

text \<open>What a click does: the radio button of another architect selects it, "Any / None"
  clears a selection, and the button that is checked does nothing.\<close>

lemma SearchPage_selectArchitect_other:
  assumes "radioOffered (searchPage.architectList s) a"
    and "\<not> radioChecked (selectedArchitect s) a"
  shows "SearchPage_selectArchitect a s = s\<lparr>searchError := None, selectedArchitect := a\<rparr>"
  unfolding SearchPage_selectArchitect_def clickRadio_fires [OF assms]
  by (simp add: handleArchitectSelect_def)

lemma Sidebar_selectArchitect_other:
  assumes "radioOffered (resultsPage.architectList r) a"
    and "\<not> radioChecked (sidebarSelectedArchitect r) a"
  shows "Sidebar_selectArchitect a r = r\<lparr>sidebarSearchError := None, sidebarSelectedArchitect := a\<rparr>"
  unfolding Sidebar_selectArchitect_def clickRadio_fires [OF assms]
  using radio_not_checked [OF assms(2)]
  by (simp add: handleSidebarArchitectSelect_def Let_def)

lemma selectArchitect_checked:
  "radioChecked (selectedArchitect s) a \<Longrightarrow> SearchPage_selectArchitect a s = s"
  "radioChecked (sidebarSelectedArchitect r) a \<Longrightarrow> Sidebar_selectArchitect a r = r"
  by (simp_all add: SearchPage_selectArchitect_def Sidebar_selectArchitect_def clickRadio_checked)

text \<open>
  C8. The selection holds one architect or none, and a click on the radio button of another
  architect makes that one the selection. The handlers would clear the selection if they
  were called with the architect that is selected (\<open>handleChange_toggle\<close>), but the radio
  button of the selected architect is checked and a click on it calls no handler: on the
  search page and in the sidebar over the example data, with \<open>Foo\<close> selected, a click on
  \<open>Foo\<close> leaves \<open>Foo\<close> selected, where C8 says that the selection is cleared to null. A
  click on \<open>Bar\<close> selects \<open>Bar\<close>, and a click on "Any / None" clears the selection.
\<close>

theorem C8_reclick_keeps_selection:
  "selectedArchitect (SearchPage_selectArchitect (Some ''Foo'')
       ((mount_SearchPage (app (searchUi SearchPage_initial)))\<lparr>selectedArchitect := Some ''Foo''\<rparr>))
     = Some ''Foo''
   \<and> sidebarSelectedArchitect (Sidebar_selectArchitect (Some ''Foo'')
       (mount_ResultsPage
          (app (resultsUi \<lparr>tags = [], architect = Some ''Foo''\<rparr> (ResultsPage_initial criterionArch)))))
     = Some ''Foo''
   \<and> selectedArchitect (SearchPage_selectArchitect (Some ''Bar'')
       ((mount_SearchPage (app (searchUi SearchPage_initial)))\<lparr>selectedArchitect := Some ''Foo''\<rparr>))
     = Some ''Bar''
   \<and> selectedArchitect (SearchPage_selectArchitect None
       ((mount_SearchPage (app (searchUi SearchPage_initial)))\<lparr>selectedArchitect := Some ''Foo''\<rparr>))
     = None"
proof -
  let ?s = "(mount_SearchPage (app (searchUi SearchPage_initial)))\<lparr>selectedArchitect := Some ''Foo''\<rparr>"
  let ?r = "mount_ResultsPage
     (app (resultsUi \<lparr>tags = [], architect = Some ''Foo''\<rparr> (ResultsPage_initial criterionArch)))"
  have ls: "searchPage.architectList ?s = [''Bar'', ''Foo'']"
    by (simp add: model_defs example_defs)
  have ss: "selectedArchitect ?s = Some ''Foo''"
    by simp
  have sr: "sidebarSelectedArchitect ?r = Some ''Foo''"
    by (simp add: model_defs example_defs)
  have a: "SearchPage_selectArchitect (Some ''Foo'') ?s = ?s"
    by (rule selectArchitect_checked) (simp add: radioChecked_def)
  have b: "Sidebar_selectArchitect (Some ''Foo'') ?r = ?r"
    by (rule selectArchitect_checked) (simp add: radioChecked_def sr)
  have c: "SearchPage_selectArchitect (Some ''Bar'') ?s
      = ?s\<lparr>searchError := None, selectedArchitect := Some ''Bar''\<rparr>"
    by (rule SearchPage_selectArchitect_other) (simp_all add: radioOffered_def radioChecked_def ls)
  have d: "SearchPage_selectArchitect None ?s
      = ?s\<lparr>searchError := None, selectedArchitect := None\<rparr>"
    by (rule SearchPage_selectArchitect_other)
      (simp_all add: radioOffered_def radioChecked_def truthy_def)
  show ?thesis
    unfolding a b c d by (simp add: sr)
qed

section \<open>The architect option list\<close>

lemma set_truthy_architects:
  "set (map the (filter truthy (map image.architect imgs)))
     = {a. a \<noteq> [] \<and> (\<exists>img \<in> set imgs. image.architect img = Some a)}"
proof (intro set_eqI iffI)
  fix a
  assume "a \<in> set (map the (filter truthy (map image.architect imgs)))"
  then obtain img where "img \<in> set imgs" and "truthy (image.architect img)"
    and "a = the (image.architect img)"
    by auto
  then show "a \<in> {a. a \<noteq> [] \<and> (\<exists>img \<in> set imgs. image.architect img = Some a)}"
    by (cases "image.architect img") (auto simp add: truthy_def)
next
  fix a
  assume "a \<in> {a. a \<noteq> [] \<and> (\<exists>img \<in> set imgs. image.architect img = Some a)}"
  then obtain img where i: "img \<in> set imgs" and s: "image.architect img = Some a"
    and n: "a \<noteq> []"
    by auto
  have "truthy (image.architect img)" using s n by (simp add: truthy_def)
  moreover have "a = the (image.architect img)" using s by simp
  ultimately show "a \<in> set (map the (filter truthy (map image.architect imgs)))"
    using i by auto
qed

lemma set_uniqueArchitects:
  "set (uniqueArchitects imgs)
     = {a. a \<noteq> [] \<and> (\<exists>img \<in> set imgs. image.architect img = Some a)}"
  unfolding uniqueArchitects_def
  by (simp only: set_sort set_new_Set set_truthy_architects)

lemma sorted_uniqueArchitects: "sorted (uniqueArchitects imgs)"
  by (simp add: uniqueArchitects_def)

lemma distinct_uniqueArchitects: "distinct (uniqueArchitects imgs)"
  by (simp add: uniqueArchitects_def distinct_new_Set)

lemma uniqueArchitects_Nil: "uniqueArchitects [] = []"
  by (simp add: uniqueArchitects_def new_Set_def)

text \<open>A sorted list without repetition is determined by its elements: whatever algorithm
  \<open>Array.prototype.sort\<close> runs, its result on the deduplicated names is this list.\<close>

lemma uniqueArchitects_unique:
  assumes "sorted l" and "distinct l" and "set l = set (uniqueArchitects imgs)"
  shows "l = uniqueArchitects imgs"
  using assms sorted_uniqueArchitects distinct_uniqueArchitects
  by (metis sorted_distinct_set_unique)

lemma architectList_effect_initial: "architectList_effect imgs [] = uniqueArchitects imgs"
  by (simp add: architectList_effect_def uniqueArchitects_Nil)

text \<open>
  C9, as stated, fails: \<open>filter(Boolean)\<close> drops the empty string with \<open>null\<close>. The
  third example image has the architect \<open>''''\<close>, a value present in a record, and it does
  not appear in the list.
\<close>

theorem C9_counterexample:
  "image.architect imageC = Some ''''
   \<and> count_list (uniqueArchitects [imageA, imageC]) '''' = 0
   \<and> uniqueArchitects [imageA, imageC] = [''Foo'']"
  by (simp add: uniqueArchitects_def imageA_def imageC_def truthy_def new_Set_def Set_add_def)

text \<open>
  C9, amended. The architect option list of the search page and of the results page is
  the result of collecting the architect fields that are neither absent nor the empty
  string across all image records, deduplicating, and sorting lexicographically: for
  every image list it is sorted, holds no name twice, and its elements are exactly the
  non-empty architect values present in some record.
\<close>

theorem C9_architect_list:
  "sorted (uniqueArchitects imgs)
   \<and> distinct (uniqueArchitects imgs)
   \<and> set (uniqueArchitects imgs)
       = {a. a \<noteq> [] \<and> (\<exists>img \<in> set imgs. image.architect img = Some a)}
   \<and> searchPage.architectList (mount_SearchPage a) = uniqueArchitects (images (appData a))
   \<and> resultsPage.architectList (mount_ResultsPage a) = uniqueArchitects (images (appData a))"
  by (simp add: sorted_uniqueArchitects distinct_uniqueArchitects set_uniqueArchitects
      mount_SearchPage_def mount_ResultsPage_def SearchPage_initial_def ResultsPage_initial_def
      searchCriteria_effect_def architectList_effect_initial Let_def)

theorem C9_architect_list_witness:
  "uniqueArchitects [imageA, imageB, imageA] = [''Bar'', ''Foo'']
   \<and> sorted (uniqueArchitects [imageA, imageB, imageA])
   \<and> distinct (uniqueArchitects [imageA, imageB, imageA])"
  using C9_architect_list [of "[imageA, imageB, imageA]" App_initial]
  by (simp add: uniqueArchitects_def imageA_def imageB_def truthy_def new_Set_def Set_add_def)

section \<open>The architect of a criterion\<close>

text \<open>
  The filter predicate is applied to the criterion of the quick search, to the selection
  of the search page, to the selection of the sidebar and to the active criterion. The
  architect of each of them is null or a name of the architect list, never the empty
  string: the quick search and the sidebar pass it through \<open>|| null\<close>, the architect list
  is filtered by \<open>Boolean\<close>, the radio buttons select null or a name of that list, and the
  tag pivot and "Home" set null.
\<close>

lemma or_null_not_empty: "or_null v \<noteq> Some []"
  by (simp add: or_null_def truthy_def split: option.split)

lemma FilterSentence_architect:
  "FilterSentence_handleSearch slotValues = Some c \<Longrightarrow> criterion.architect c \<noteq> Some []"
  by (auto simp add: FilterSentence_handleSearch_def Let_def or_null_not_empty split: if_splits)

lemma uniqueArchitects_not_empty: "[] \<notin> set (uniqueArchitects imgs)"
  by (simp add: set_uniqueArchitects)

lemma mount_SearchPage_architects:
  "[] \<notin> set (searchPage.architectList (mount_SearchPage a))
   \<and> selectedArchitect (mount_SearchPage a) = None"
  by (simp add: mount_SearchPage_def SearchPage_initial_def architectList_effect_initial
      uniqueArchitects_not_empty)

lemma mount_ResultsPage_architects:
  "[] \<notin> set (resultsPage.architectList (mount_ResultsPage a))
   \<and> sidebarSelectedArchitect (mount_ResultsPage a) \<noteq> Some []"
  by (simp add: mount_ResultsPage_def ResultsPage_initial_def searchCriteria_effect_def Let_def
      architectList_effect_initial uniqueArchitects_not_empty or_null_not_empty)

lemma searchCriteria_effect_architect:
  "sidebarSelectedArchitect (searchCriteria_effect c r) \<noteq> Some []
   \<and> resultsPage.architectList (searchCriteria_effect c r) = resultsPage.architectList r"
  by (simp add: searchCriteria_effect_def or_null_not_empty)

lemma radioOffered_not_empty:
  "radioOffered l a \<Longrightarrow> [] \<notin> set l \<Longrightarrow> a \<noteq> Some []"
  by (cases a) (auto simp add: radioOffered_def)

lemma SearchPage_selectArchitect_not_empty:
  assumes "[] \<notin> set (searchPage.architectList s)" and "selectedArchitect s \<noteq> Some []"
  shows "selectedArchitect (SearchPage_selectArchitect a s) \<noteq> Some []
       \<and> searchPage.architectList (SearchPage_selectArchitect a s) = searchPage.architectList s"
proof (cases "radioOffered (searchPage.architectList s) a \<and> \<not> radioChecked (selectedArchitect s) a")
  case True
  then have "SearchPage_selectArchitect a s = s\<lparr>searchError := None, selectedArchitect := a\<rparr>"
    by (simp add: SearchPage_selectArchitect_other)
  moreover have "a \<noteq> Some []"
    using True assms(1) by (blast dest: radioOffered_not_empty)
  ultimately show ?thesis by simp
next
  case False
  then have "SearchPage_selectArchitect a s = s"
    by (auto simp add: SearchPage_selectArchitect_def clickRadio_checked clickRadio_not_offered)
  with assms show ?thesis by simp
qed

lemma Sidebar_selectArchitect_not_empty:
  assumes "[] \<notin> set (resultsPage.architectList r)" and "sidebarSelectedArchitect r \<noteq> Some []"
  shows "sidebarSelectedArchitect (Sidebar_selectArchitect a r) \<noteq> Some []
       \<and> resultsPage.architectList (Sidebar_selectArchitect a r) = resultsPage.architectList r"
proof (cases "radioOffered (resultsPage.architectList r) a \<and> \<not> radioChecked (sidebarSelectedArchitect r) a")
  case True
  then have "Sidebar_selectArchitect a r
      = r\<lparr>sidebarSearchError := None, sidebarSelectedArchitect := a\<rparr>"
    by (simp add: Sidebar_selectArchitect_other)
  moreover have "a \<noteq> Some []"
    using True assms(1) by (blast dest: radioOffered_not_empty)
  ultimately show ?thesis by simp
next
  case False
  then have "Sidebar_selectArchitect a r = r"
    by (auto simp add: Sidebar_selectArchitect_def clickRadio_checked clickRadio_not_offered)
  with assms show ?thesis by simp
qed

lemma searchButton_architect:
  "searchButton s = Some c \<Longrightarrow> criterion.architect c = selectedArchitect s"
  by (auto simp add: searchButton_def split: if_splits)

lemma handleUpdateSearch_architect:
  "handleUpdateSearch imgs r = (r', Some c) \<Longrightarrow> criterion.architect c = sidebarSelectedArchitect r"
  by (auto simp add: handleUpdateSearch_def Let_def split: if_splits)

lemma confirmNewSearch_architect:
  "confirmNewSearch r = (r', Some c) \<Longrightarrow> criterion.architect c = None"
  by (auto simp add: confirmNewSearch_def Let_def split: if_splits)

lemma handleHome_architect: "criterion.architect (currentSearchCriteria (handleHome a)) = None"
  by (simp add: handleHome_def)

lemma removeArchitect_architect: "selectedArchitect (removeArchitect s) = None"
  by (simp add: removeArchitect_def)

lemma tag_handlers_keep_architect:
  "selectedArchitect (handleTagSelect t s) = selectedArchitect s
   \<and> selectedArchitect (removeTag t s) = selectedArchitect s
   \<and> sidebarSelectedArchitect (handleSidebarTagSelect t r) = sidebarSelectedArchitect r"
  by (simp add: handleTagSelect_def removeTag_def handleSidebarTagSelect_def Let_def)

section \<open>Home\<close>

text \<open>
  C10. "Home" on the results page returns the view to the search page, mounted afresh,
  and resets the active criterion to the empty criterion \<open>{tags: [], architect: null}\<close>;
  the loaded dataset is unchanged.
\<close>

theorem C10_home:
  assumes "page u = ResultsPage r"
  shows "view (app (onHome u)) = SearchView
       \<and> currentSearchCriteria (app (onHome u)) = \<lparr>tags = [], architect = None\<rparr>
       \<and> appData (app (onHome u)) = appData (app u)
       \<and> page (onHome u) = SearchPage (mount_SearchPage (handleHome (app u)))"
  using assms by (simp add: onHome_def handleHome_def renderView_def Let_def)

theorem C10_home_witness:
  "view (app (onHome (resultsUi criterionArch (ResultsPage_initial criterionArch)))) = SearchView
   \<and> currentSearchCriteria (app (onHome (resultsUi criterionArch (ResultsPage_initial criterionArch))))
       = \<lparr>tags = [], architect = None\<rparr>
   \<and> appData (app (onHome (resultsUi criterionArch (ResultsPage_initial criterionArch))))
       = exampleData"
proof -
  let ?u = "resultsUi criterionArch (ResultsPage_initial criterionArch)"
  have p: "page ?u = ResultsPage (ResultsPage_initial criterionArch)"
    by (simp add: resultsUi_def)
  from C10_home [OF p] show ?thesis by (simp add: resultsUi_def)
qed

end
